theory Spec2Isabelle
  imports Main "HOL-Library.Word" "HOL-Library.Sublist"
begin

unbundle bit_operations_syntax

section \<open>Data model\<close>

text \<open>
  Python \<open>bytes\<close> are lists of 8-bit words; Python \<open>str\<close> values are \<open>string\<close>s.
  Isabelle's \<open>char\<close> has 256 values: the codes 0..127 are the ASCII characters and the
  codes 128..255 stand for the non-ASCII characters of a Python \<open>str\<close>.
\<close>

type_synonym byte = "8 word"

text \<open>
  The exceptions that can leave the functions of \<open>together_app.py\<close>.
  \<open>ValueError\<close> carries its message. The two \<open>binascii.Error\<close>s of the base64 decoder
  are kept apart (the second one carries the number printed in its message).
  \<open>External\<close> is any exception raised by a collaborator (the Together client,
  \<open>requests.get\<close>, \<open>open\<close>/\<open>read\<close>), named by the environment.
\<close>

datatype error =
    ValueError string
  | BinasciiIncorrectPadding
  | BinasciiInvalidLength nat
  | TypeError
  | IndexError
  | External string

section \<open>The standard library's base64 codec\<close>

text \<open>
  \<open>base64.b64encode\<close> and \<open>base64.b64decode\<close> are CPython's
  \<open>binascii.b2a_base64\<close> (without the newline) and \<open>binascii.a2b_base64\<close>
  (not in strict mode, since \<open>validate\<close> is left at \<open>False\<close>).
\<close>

definition table_b2a_base64 :: string where
  "table_b2a_base64 = ''ABCDEFGHIJKLMNOPQRSTUVWXYZabcdefghijklmnopqrstuvwxyz0123456789+/''"

definition BASE64_PAD :: char where
  "BASE64_PAD = CHR ''=''"

definition b2a :: "byte \<Rightarrow> char" where
  "b2a v = table_b2a_base64 ! unat v"

text \<open>
  The decoding table sends each character of the alphabet to its index and every other
  character to an invalid entry (\<open>None\<close> here).
\<close>

definition table_a2b_base64 :: "char \<Rightarrow> byte option" where
  "table_a2b_base64 = map_of (zip table_b2a_base64 (map of_nat [0..<64]))"

text \<open>
  The encoder, three bytes at a time: every full group gives four characters, a rest of
  two bytes gives three characters and one \<open>=\<close>, a rest of one byte gives two characters
  and \<open>==\<close>.
\<close>

fun b64encode :: "byte list \<Rightarrow> string" where
  "b64encode (a # b # c # rest) =
     [b2a (drop_bit 2 a),
      b2a (push_bit 4 (a AND 3) OR drop_bit 4 b),
      b2a (push_bit 2 (b AND 15) OR drop_bit 6 c),
      b2a (c AND 63)] @ b64encode rest"
| "b64encode [a, b] =
     [b2a (drop_bit 2 a),
      b2a (push_bit 4 (a AND 3) OR drop_bit 4 b),
      b2a (push_bit 2 (b AND 15)),
      BASE64_PAD]"
| "b64encode [a] =
     [b2a (drop_bit 2 a), b2a (push_bit 4 (a AND 3)), BASE64_PAD, BASE64_PAD]"
| "b64encode [] = []"

text \<open>
  The decoder's loop over the input characters, with its variables \<open>quad_pos\<close>,
  \<open>leftchar\<close>, \<open>pads\<close> and the output written so far. A \<open>=\<close> counts as padding only
  from the third position of a quad on, and a complete pad sequence ends the decoding
  (whatever follows is ignored); a character outside the alphabet is skipped; at the end
  of the input an incomplete quad is an error.
\<close>

fun a2b_loop :: "string \<Rightarrow> nat \<Rightarrow> byte \<Rightarrow> nat \<Rightarrow> byte list \<Rightarrow> error + byte list" where
  "a2b_loop [] quad_pos leftchar pads bin =
     (if quad_pos \<noteq> 0 then
        (if quad_pos = 1 then Inl (BinasciiInvalidLength (length bin div 3 * 4 + 1))
         else Inl BinasciiIncorrectPadding)
      else Inr bin)"
| "a2b_loop (c # cs) quad_pos leftchar pads bin =
     (if c = BASE64_PAD then
        (if quad_pos \<ge> 2 then
           (if quad_pos + (pads + 1) \<ge> 4 then Inr bin
            else a2b_loop cs quad_pos leftchar (pads + 1) bin)
         else a2b_loop cs quad_pos leftchar pads bin)
      else
        (case table_a2b_base64 c of
           None \<Rightarrow> a2b_loop cs quad_pos leftchar pads bin
         | Some this_ch \<Rightarrow>
             (if quad_pos = 0 then a2b_loop cs 1 this_ch 0 bin
              else if quad_pos = 1 then
                a2b_loop cs 2 (this_ch AND 15) 0
                  (bin @ [push_bit 2 leftchar OR drop_bit 4 this_ch])
              else if quad_pos = 2 then
                a2b_loop cs 3 (this_ch AND 3) 0
                  (bin @ [push_bit 4 leftchar OR drop_bit 2 this_ch])
              else
                a2b_loop cs 0 0 0 (bin @ [push_bit 6 leftchar OR this_ch]))))"

definition a2b_base64 :: "string \<Rightarrow> error + byte list" where
  "a2b_base64 s = a2b_loop s 0 0 0 []"

text \<open>
  \<open>b64decode\<close> of a \<open>str\<close> first encodes it as ASCII, and raises \<open>ValueError\<close> when
  that fails.
\<close>

definition b64decode :: "string \<Rightarrow> error + byte list" where
  "b64decode s =
     (if \<exists>c \<in> set s. (128 :: nat) \<le> of_char c
      then Inl (ValueError ''string argument should contain only ASCII characters'')
      else a2b_base64 s)"

section \<open>The image type detector\<close>

text \<open>\<open>bytes.startswith\<close> and the slice \<open>xs[i:j]\<close> for \<open>0 \<le> i \<le> j\<close>.\<close>

definition startswith :: "'a list \<Rightarrow> 'a list \<Rightarrow> bool" where
  "startswith xs p = (take (length p) xs = p)"

definition slice :: "'a list \<Rightarrow> nat \<Rightarrow> nat \<Rightarrow> 'a list" where
  "slice xs i j = take (j - i) (drop i xs)"

text \<open>The bytes of an ASCII literal \<open>b"..."\<close>.\<close>

definition ascii :: "string \<Rightarrow> byte list" where
  "ascii s = map of_char s"

definition detect_image_type :: "string \<Rightarrow> error + string" where
  "detect_image_type b64string =
     (case b64decode (take 32 b64string) of
        Inl e \<Rightarrow> Inl e
      | Inr header_bytes \<Rightarrow>
          if startswith header_bytes ([0x89] @ ascii ''PNG'' @ [0x0D, 0x0A, 0x1A, 0x0A])
          then Inr ''png''
          else if startswith header_bytes [0xFF, 0xD8, 0xFF]
          then Inr ''jpeg''
          else if startswith header_bytes (ascii ''RIFF'')
                  \<and> slice header_bytes 8 12 = ascii ''WEBP''
          then Inr ''webp''
          else Inr ''png'')"

text \<open>
  The classification as the specification words it, on the decoded header: the ordered
  rules, the first match winning. ``Starts with'' is \<^const>\<open>prefix\<close>; ``the bytes at offsets
  8 to 11'' are read one by one, which needs a header of at least 12 bytes.
\<close>

definition spec_classify :: "byte list \<Rightarrow> string" where
  "spec_classify h =
     (if prefix [0x89, 0x50, 0x4E, 0x47, 0x0D, 0x0A, 0x1A, 0x0A] h then ''png''
      else if prefix [0xFF, 0xD8, 0xFF] h then ''jpeg''
      else if prefix [0x52, 0x49, 0x46, 0x46] h \<and> 12 \<le> length h
              \<and> h ! 8 = 0x57 \<and> h ! 9 = 0x45 \<and> h ! 10 = 0x42 \<and> h ! 11 = 0x50 then ''webp''
      else ''png'')"

text \<open>
  A well-formed base64 text, as the specification's ``valid base64 input'' is read here:
  quads of characters of the alphabet, where the last quad may end in one or two \<open>=\<close>.
  Its length is a multiple of 4 and it may be empty. Every result of the encoder has
  this shape.
\<close>

fun valid_b64 :: "string \<Rightarrow> bool" where
  "valid_b64 [] = True"
| "valid_b64 [c1, c2, c3, c4] =
     (c1 \<in> set table_b2a_base64 \<and> c2 \<in> set table_b2a_base64
      \<and> (c3 \<in> set table_b2a_base64 \<and> (c4 \<in> set table_b2a_base64 \<or> c4 = BASE64_PAD)
         \<or> c3 = BASE64_PAD \<and> c4 = BASE64_PAD))"
| "valid_b64 (c1 # c2 # c3 # c4 # rest) =
     (c1 \<in> set table_b2a_base64 \<and> c2 \<in> set table_b2a_base64
      \<and> c3 \<in> set table_b2a_base64 \<and> c4 \<in> set table_b2a_base64 \<and> valid_b64 rest)"
| "valid_b64 _ = False"

section \<open>The environment of the tool handlers\<close>

text \<open>
  One element of \<open>response.data\<close>, as the Together client returns it: a \<open>url\<close> and a
  \<open>b64_json\<close>, each \<open>None\<close> or a \<open>str\<close>.
\<close>

record image_ref =
  url :: "string option"
  b64_json :: "string option"

text \<open>The keyword arguments of \<open>client.images.generate\<close>.\<close>

record images_request =
  arg_prompt :: string
  arg_model :: string
  arg_condition_image :: "string option"
  arg_width :: int
  arg_height :: int
  arg_steps :: int
  arg_n :: int

text \<open>
  The keyword arguments of \<open>client.chat.completions.create\<close>: the model and the single
  user message, made of an image URL and a text.
\<close>

record chat_request =
  chat_model :: string
  chat_image_url :: string
  chat_text :: string

text \<open>The \<open>ImageContent\<close> the image tools return.\<close>

record ImageContent =
  type :: string
  data :: string
  mimeType :: string
  annotations :: "string \<rightharpoonup> string"

text \<open>
  Everything a handler reads from outside:
  the three model identifiers read from the process environment at start,
  the Together client (\<open>images_generate\<close> gives \<open>response.data\<close>, a list or \<open>None\<close>;
  \<open>chat_completions_create\<close> gives the \<open>message.content\<close> of each of \<open>response.choices\<close>),
  \<open>requests.get(url).content\<close>, the content of a file opened for reading,
  and what \<open>uuid.uuid4().hex\<close> gives in this invocation.
  A collaborator that raises returns \<open>Inl\<close>.
\<close>

record env =
  TEXT2IMAGE_MODEL :: string
  IMAGE2IMAGE_MODEL :: string
  IMAGE2TEXT_MODEL :: string
  images_generate :: "images_request \<Rightarrow> error + image_ref list option"
  chat_completions_create :: "chat_request \<Rightarrow> error + string option list"
  requests_get :: "string \<Rightarrow> error + byte list"
  read_file :: "string \<Rightarrow> error + byte list"
  uuid4_hex :: string

text \<open>
  The calls a handler makes to its collaborators, in order. Writing to the log file is
  not part of the model.
\<close>

datatype event =
    ImagesGenerate images_request
  | ChatCreate chat_request
  | RequestsGet string
  | FileRead string

section \<open>The tool handlers\<close>

text \<open>
  The truth test \<open>if x:\<close> on an optional string: \<open>None\<close> and the empty string are false.
  The result is the string when the test succeeds.
\<close>

fun truthy :: "string option \<Rightarrow> string option" where
  "truthy None = None"
| "truthy (Some s) = (if s = [] then None else Some s)"

text \<open>
  The block that both image tools run on \<open>response.data[0]\<close> (the \<open>if image.url: ...
  elif image.b64_json: ... else: raise\<close>): the base64 text of the image and the
  requests made for it.
\<close>

definition fetch_image :: "env \<Rightarrow> image_ref \<Rightarrow> (error + string) \<times> event list" where
  "fetch_image e img =
     (case truthy (url img) of
        Some u \<Rightarrow>
          (case requests_get e u of
             Inl err \<Rightarrow> (Inl err, [RequestsGet u])
           | Inr content \<Rightarrow> (Inr (b64encode content), [RequestsGet u]))
      | None \<Rightarrow>
          (case truthy (b64_json img) of
             Some b \<Rightarrow> (Inr b, [])
           | None \<Rightarrow> (Inl (ValueError ''No image data in response''), [])))"

text \<open>
  \<open>generate_image\<close>. The source's variable \<open>image\<close> is \<open>img\<close> here (\<open>image\<close> is a constant
  of HOL). When \<open>response.data\<close> is \<open>None\<close>, the \<open>len(response.data)\<close> of the log line
  raises \<open>TypeError\<close>. Every exception is logged and raised again unchanged.
\<close>

definition generate_request :: "env \<Rightarrow> string \<Rightarrow> images_request" where
  "generate_request e prompt =
     \<lparr>arg_prompt = prompt, arg_model = TEXT2IMAGE_MODEL e, arg_condition_image = None,
      arg_width = 1024, arg_height = 1792, arg_steps = 4, arg_n = 1\<rparr>"

definition generate_image :: "env \<Rightarrow> string \<Rightarrow> (error + ImageContent) \<times> event list" where
  "generate_image e prompt =
     (let req = generate_request e prompt in
      case images_generate e req of
        Inl err \<Rightarrow> (Inl err, [ImagesGenerate req])
      | Inr None \<Rightarrow> (Inl TypeError, [ImagesGenerate req])
      | Inr (Some []) \<Rightarrow> (Inl (ValueError ''No images generated''), [ImagesGenerate req])
      | Inr (Some (img # _)) \<Rightarrow>
          (let case_id = uuid4_hex e in
           case fetch_image e img of
             (Inl err, calls) \<Rightarrow> (Inl err, ImagesGenerate req # calls)
           | (Inr image_base64, calls) \<Rightarrow>
               (case detect_image_type image_base64 of
                  Inl err \<Rightarrow> (Inl err, ImagesGenerate req # calls)
                | Inr output_format \<Rightarrow>
                    (Inr \<lparr>type = ''image'', data = image_base64,
                          mimeType = ''image/'' @ output_format,
                          annotations = [''case_id'' \<mapsto> case_id, ''prompt'' \<mapsto> prompt]\<rparr>,
                     ImagesGenerate req # calls))))"

text \<open>
  \<open>edit_image\<close>: the file is read and encoded first, and sent as \<open>condition_image\<close>.
\<close>

definition edit_request :: "env \<Rightarrow> string \<Rightarrow> string \<Rightarrow> images_request" where
  "edit_request e image_base64 prompt =
     \<lparr>arg_prompt = prompt, arg_model = IMAGE2IMAGE_MODEL e,
      arg_condition_image = Some image_base64,
      arg_width = 1024, arg_height = 1024, arg_steps = 4, arg_n = 1\<rparr>"

definition edit_image :: "env \<Rightarrow> string \<Rightarrow> string \<Rightarrow> (error + ImageContent) \<times> event list" where
  "edit_image e image_path prompt =
     (case read_file e image_path of
        Inl err \<Rightarrow> (Inl err, [FileRead image_path])
      | Inr image_data \<Rightarrow>
          (let image_base64 = b64encode image_data;
               req = edit_request e image_base64 prompt in
           case images_generate e req of
             Inl err \<Rightarrow> (Inl err, [FileRead image_path, ImagesGenerate req])
           | Inr None \<Rightarrow> (Inl TypeError, [FileRead image_path, ImagesGenerate req])
           | Inr (Some []) \<Rightarrow>
               (Inl (ValueError ''No images generated''), [FileRead image_path, ImagesGenerate req])
           | Inr (Some (img # _)) \<Rightarrow>
               (let case_id = uuid4_hex e in
                case fetch_image e img of
                  (Inl err, calls) \<Rightarrow> (Inl err, FileRead image_path # ImagesGenerate req # calls)
                | (Inr result_base64, calls) \<Rightarrow>
                    (case detect_image_type result_base64 of
                       Inl err \<Rightarrow> (Inl err, FileRead image_path # ImagesGenerate req # calls)
                     | Inr output_format \<Rightarrow>
                         (Inr \<lparr>type = ''image'', data = result_base64,
                               mimeType = ''image/'' @ output_format,
                               annotations = [''case_id'' \<mapsto> case_id, ''prompt'' \<mapsto> prompt,
                                              ''source_image'' \<mapsto> image_path]\<rparr>,
                          FileRead image_path # ImagesGenerate req # calls)))))"

text \<open>
  \<open>describe_image\<close>: \<open>response.choices[0]\<close> raises \<open>IndexError\<close> on an empty list, and
  the \<open>len(description)\<close> of the log line raises \<open>TypeError\<close> when the content is \<open>None\<close>.
\<close>

definition describe_request :: "env \<Rightarrow> string \<Rightarrow> string \<Rightarrow> chat_request" where
  "describe_request e image_type image_base64 =
     \<lparr>chat_model = IMAGE2TEXT_MODEL e,
      chat_image_url = ''data:image/'' @ image_type @ '';base64,'' @ image_base64,
      chat_text = ''Describe this image in detail.''\<rparr>"

definition describe_image :: "env \<Rightarrow> string \<Rightarrow> (error + string) \<times> event list" where
  "describe_image e image_path =
     (case read_file e image_path of
        Inl err \<Rightarrow> (Inl err, [FileRead image_path])
      | Inr image_data \<Rightarrow>
          (let image_base64 = b64encode image_data in
           case detect_image_type image_base64 of
             Inl err \<Rightarrow> (Inl err, [FileRead image_path])
           | Inr image_type \<Rightarrow>
               (let req = describe_request e image_type image_base64 in
                case chat_completions_create e req of
                  Inl err \<Rightarrow> (Inl err, [FileRead image_path, ChatCreate req])
                | Inr [] \<Rightarrow> (Inl IndexError, [FileRead image_path, ChatCreate req])
                | Inr (None # _) \<Rightarrow> (Inl TypeError, [FileRead image_path, ChatCreate req])
                | Inr (Some description # _) \<Rightarrow>
                    (Inr description, [FileRead image_path, ChatCreate req]))))"

section \<open>Example inputs\<close>

text \<open>
  A PNG signature followed by zero bytes: 24 bytes, the same cut to 22 bytes, and a
  RIFF/WEBP header of 24 bytes.
\<close>

definition example_png :: "byte list" where
  "example_png = [0x89, 0x50, 0x4E, 0x47, 0x0D, 0x0A, 0x1A, 0x0A] @ replicate 16 0"

definition example_png22 :: "byte list" where
  "example_png22 = [0x89, 0x50, 0x4E, 0x47, 0x0D, 0x0A, 0x1A, 0x0A] @ replicate 14 0"

definition example_webp :: "byte list" where
  "example_webp = [0x52, 0x49, 0x46, 0x46, 0x24, 0, 0, 0, 0x57, 0x45, 0x42, 0x50,
                   0x56, 0x50, 0x38, 0x20, 0x18, 0, 0, 0, 0x30, 0x01, 0, 0x9D]"

text \<open>Two image references: an inline PNG, and one with neither field set.\<close>

definition inline_png :: image_ref where
  "inline_png = \<lparr>url = None, b64_json = Some ''iVBORw0KGgoAAAAAAAAAAAAAAAAAAAAA''\<rparr>"

definition empty_ref :: image_ref where
  "empty_ref = \<lparr>url = None, b64_json = None\<rparr>"

text \<open>
  An environment: the image endpoint answers every request with the inline PNG followed
  by a second reference, the chat endpoint with one choice, no URL can be fetched, and
  one file exists.
\<close>

definition example_env :: env where
  "example_env =
     \<lparr>TEXT2IMAGE_MODEL = ''text2image-model'',
      IMAGE2IMAGE_MODEL = ''image2image-model'',
      IMAGE2TEXT_MODEL = ''image2text-model'',
      images_generate = (\<lambda>req. Inr (Some [inline_png, empty_ref])),
      chat_completions_create = (\<lambda>req. Inr [Some ''A cat.'']),
      requests_get = (\<lambda>u. Inl (External ''ConnectionError'')),
      read_file = (\<lambda>path. if path = ''/tmp/cat.png'' then Inr example_png
                           else Inl (External ''FileNotFoundError'')),
      uuid4_hex = ''0123456789abcdef0123456789abcdef''\<rparr>"

section \<open>Properties of the base64 codec\<close>

subsection \<open>The tables and the bit arithmetic\<close>

lemma distinct_table: "distinct table_b2a_base64"
  by (simp add: table_b2a_base64_def)

lemma length_table: "length table_b2a_base64 = 64"
  by (simp add: table_b2a_base64_def)

lemma pad_not_in_table: "BASE64_PAD \<notin> set table_b2a_base64"
  by (simp add: table_b2a_base64_def BASE64_PAD_def)

lemma table_ascii: "c \<in> set table_b2a_base64 \<Longrightarrow> of_char c < (128 :: nat)"
  by (auto simp add: table_b2a_base64_def)

lemma pad_ascii: "of_char BASE64_PAD < (128 :: nat)"
  by (simp add: BASE64_PAD_def)

lemma b2a_in_table: "v < 64 \<Longrightarrow> b2a v \<in> set table_b2a_base64"
  unfolding b2a_def by (rule nth_mem) (simp add: word_less_nat_alt length_table)

lemma a2b_b2a: "v < 64 \<Longrightarrow> table_a2b_base64 (b2a v) = Some v"
proof -
  assume "v < 64"
  then have n: "unat v < 64" by (simp add: word_less_nat_alt)
  have "map_of (zip table_b2a_base64 (map of_nat [0..<64])) (table_b2a_base64 ! unat v)
        = Some ((map of_nat [0..<64] :: byte list) ! unat v)"
    by (rule map_of_zip_nth) (use n in \<open>simp_all add: length_table distinct_table\<close>)
  with n show ?thesis
    by (simp add: table_a2b_base64_def b2a_def del: upt_Suc)
qed

lemma b2a_not_pad: "v < 64 \<Longrightarrow> b2a v \<noteq> BASE64_PAD"
  using b2a_in_table pad_not_in_table by metis

lemma masks: "(3::byte) = mask 2" "(15::byte) = mask 4" "(63::byte) = mask 6"
  by (simp_all add: mask_eq_exp_minus_1)

lemma SucSuc_diff: "2 \<le> n \<Longrightarrow> Suc (Suc (n - 2)) = n" by simp

lemma octet1: fixes a b :: byte
  shows "push_bit 2 (drop_bit 2 a) OR drop_bit 4 (push_bit 4 (a AND 3) OR drop_bit 4 b) = a"
  unfolding masks take_bit_eq_mask[symmetric]
  apply (rule bit_word_eqI)
  subgoal for n by (cases "2 \<le> n") (auto simp: bit_simps SucSuc_diff)
  done

lemma octet1_last: fixes a :: byte
  shows "push_bit 2 (drop_bit 2 a) OR drop_bit 4 (push_bit 4 (a AND 3)) = a"
  unfolding masks take_bit_eq_mask[symmetric]
  apply (rule bit_word_eqI)
  subgoal for n by (cases "2 \<le> n") (auto simp: bit_simps SucSuc_diff)
  done

lemma octet2: fixes a b c :: byte
  shows "push_bit 4 ((push_bit 4 (a AND 3) OR drop_bit 4 b) AND 15)
         OR drop_bit 2 (push_bit 2 (b AND 15) OR drop_bit 6 c) = b"
  unfolding masks take_bit_eq_mask[symmetric]
  by (rule bit_word_eqI) (auto simp: bit_simps SucSuc_diff)

lemma octet2_last: fixes a b :: byte
  shows "push_bit 4 ((push_bit 4 (a AND 3) OR drop_bit 4 b) AND 15)
         OR drop_bit 2 (push_bit 2 (b AND 15)) = b"
  unfolding masks take_bit_eq_mask[symmetric]
  by (rule bit_word_eqI) (auto simp: bit_simps SucSuc_diff)

lemma octet3: fixes b c :: byte
  shows "push_bit 6 ((push_bit 2 (b AND 15) OR drop_bit 6 c) AND 3) OR (c AND 63) = c"
  unfolding masks take_bit_eq_mask[symmetric]
  by (rule bit_word_eqI) (auto simp: bit_simps SucSuc_diff)

lemma lt64_iff: "(v::byte) < 64 \<longleftrightarrow> take_bit 6 v = v"
  using mask_eq_iff_w2p [of 6 v] by (simp add: word_size take_bit_eq_mask)

lemma sextet_bounds:
  fixes a b c :: byte
  shows "drop_bit 2 a < 64"
    and "push_bit 4 (a AND 3) OR drop_bit 4 b < 64"
    and "push_bit 2 (b AND 15) OR drop_bit 6 c < 64"
    and "c AND 63 < 64"
    and "push_bit 4 (a AND 3) < 64"
    and "push_bit 2 (b AND 15) < 64"
  unfolding masks take_bit_eq_mask[symmetric] lt64_iff
  by (rule bit_word_eqI; auto simp: bit_simps SucSuc_diff dest: bit_imp_le_length)+

subsection \<open>Decoding what the encoder wrote\<close>

text \<open>One step of the loop on a character of the alphabet.\<close>

lemma a2b_loop_sextet:
  assumes "v < 64"
  shows "a2b_loop (b2a v # cs) quad_pos leftchar pads bin =
     (if quad_pos = 0 then a2b_loop cs 1 v 0 bin
      else if quad_pos = 1 then
        a2b_loop cs 2 (v AND 15) 0 (bin @ [push_bit 2 leftchar OR drop_bit 4 v])
      else if quad_pos = 2 then
        a2b_loop cs 3 (v AND 3) 0 (bin @ [push_bit 4 leftchar OR drop_bit 2 v])
      else a2b_loop cs 0 0 0 (bin @ [push_bit 6 leftchar OR v]))"
  using a2b_b2a [OF assms] b2a_not_pad [OF assms] by simp

lemma a2b_loop_quad:
  assumes "s1 < 64" "s2 < 64" "s3 < 64" "s4 < 64"
  shows "a2b_loop (b2a s1 # b2a s2 # b2a s3 # b2a s4 # cs) 0 leftchar pads bin =
         a2b_loop cs 0 0 0
           (bin @ [push_bit 2 s1 OR drop_bit 4 s2,
                   push_bit 4 (s2 AND 15) OR drop_bit 2 s3,
                   push_bit 6 (s3 AND 3) OR s4])"
  by (simp add: a2b_loop_sextet assms del: a2b_loop.simps)

lemma a2b_loop_pad1:
  assumes "s1 < 64" "s2 < 64" "s3 < 64"
  shows "a2b_loop (b2a s1 # b2a s2 # b2a s3 # BASE64_PAD # cs) 0 leftchar pads bin =
         Inr (bin @ [push_bit 2 s1 OR drop_bit 4 s2,
                     push_bit 4 (s2 AND 15) OR drop_bit 2 s3])"
  by (simp add: a2b_loop_sextet assms del: a2b_loop.simps) simp

lemma a2b_loop_pad2:
  assumes "s1 < 64" "s2 < 64"
  shows "a2b_loop (b2a s1 # b2a s2 # BASE64_PAD # BASE64_PAD # cs) 0 leftchar pads bin =
         Inr (bin @ [push_bit 2 s1 OR drop_bit 4 s2])"
  by (simp add: a2b_loop_sextet assms del: a2b_loop.simps) simp

lemma a2b_loop_encode:
  "a2b_loop (b64encode bs) 0 leftchar pads bin = Inr (bin @ bs)"
proof (induction bs arbitrary: leftchar pads bin rule: b64encode.induct)
  case (1 a b c rest)
  have "a2b_loop (b64encode (a # b # c # rest)) 0 leftchar pads bin =
        a2b_loop (b64encode rest) 0 0 0 (bin @ [a, b, c])"
    by (simp only: b64encode.simps append_Cons append_Nil a2b_loop_quad sextet_bounds
          octet1 octet2 octet3)
  then show ?case by (simp add: "1.IH")
next
  case (2 a b)
  show ?case
    by (simp only: b64encode.simps a2b_loop_pad1 sextet_bounds octet1 octet2_last)
next
  case (3 a)
  show ?case
    by (simp only: b64encode.simps a2b_loop_pad2 sextet_bounds octet1_last)
next
  case 4
  show ?case by simp
qed

lemma b64encode_chars: "set (b64encode bs) \<subseteq> insert BASE64_PAD (set table_b2a_base64)"
proof (induction bs rule: b64encode.induct)
  case (1 a b c rest)
  then show ?case
    by (simp only: b64encode.simps set_append set_simps)
       (use b2a_in_table sextet_bounds in blast)
next
  case (2 a b)
  show ?case
    by (simp only: b64encode.simps set_simps)
       (use b2a_in_table sextet_bounds in blast)
next
  case (3 a)
  show ?case
    by (simp only: b64encode.simps set_simps)
       (use b2a_in_table sextet_bounds in blast)
next
  case 4
  show ?case by simp
qed

lemma b64encode_ascii: "c \<in> set (b64encode bs) \<Longrightarrow> of_char c < (128 :: nat)"
  using b64encode_chars [of bs] table_ascii pad_ascii by auto

lemma b64decode_b64encode: "b64decode (b64encode bs) = Inr bs"
proof -
  have "\<not> (\<exists>c \<in> set (b64encode bs). (128 :: nat) \<le> of_char c)"
    using b64encode_ascii [of _ bs] by (auto simp: not_le)
  then show ?thesis
    by (simp add: b64decode_def a2b_base64_def a2b_loop_encode)
qed

lemma length_b64encode: "length (b64encode bs) = 4 * ((length bs + 2) div 3)"
proof (induction bs rule: b64encode.induct)
  case (1 a b c rest)
  have "(length (a # b # c # rest) + 2) div 3 = Suc ((length rest + 2) div 3)" by simp
  with 1 show ?case by (simp del: b2a_def)
qed simp_all

lemma take_b64encode:
  "3 * k \<le> length bs \<Longrightarrow> take (4 * k) (b64encode bs) = b64encode (take (3 * k) bs)"
proof (induction k arbitrary: bs)
  case 0
  show ?case by simp
next
  case (Suc k)
  then obtain a b c rest where bs: "bs = a # b # c # rest"
    by (cases bs rule: b64encode.cases) auto
  with Suc.prems have "3 * k \<le> length rest" by simp
  from Suc.IH [OF this] have IH: "take (4 * k) (b64encode rest) = b64encode (take (3 * k) rest)" .
  have e: "4 * Suc k = Suc (Suc (Suc (Suc (4 * k))))" "3 * Suc k = Suc (Suc (Suc (3 * k)))"
    by simp_all
  show ?case
    by (simp only: e bs b64encode.simps take_Suc_Cons append_Cons append_Nil IH)
qed

lemma header_of_b64encode:
  "b64decode (take 32 (b64encode bs)) = Inr (take 24 bs)"
proof (cases "24 \<le> length bs")
  case True
  then have "take 32 (b64encode bs) = b64encode (take 24 bs)"
    using take_b64encode [of 8 bs] by simp
  then show ?thesis by (simp add: b64decode_b64encode)
next
  case False
  then have "length (b64encode bs) \<le> 32" "take 24 bs = bs"
    by (simp_all add: length_b64encode)
  then show ?thesis by (simp add: b64decode_b64encode)
qed


subsection \<open>The classification\<close>

lemma startswith_prefix: "startswith xs p \<longleftrightarrow> prefix p xs"
  unfolding startswith_def prefix_def
  by (metis append_eq_conv_conj append_take_drop_id)

lemma slice_4_iff:
  "slice h 8 12 = [w, x, y, z] \<longleftrightarrow>
     12 \<le> length h \<and> h ! 8 = w \<and> h ! 9 = x \<and> h ! 10 = y \<and> h ! 11 = z"
proof
  assume eq: "slice h 8 12 = [w, x, y, z]"
  then have "length (take 4 (drop 8 h)) = 4" by (simp add: slice_def)
  then have len: "12 \<le> length h" by simp
  have "take 4 (drop 8 h) ! 0 = w" "take 4 (drop 8 h) ! 1 = x"
       "take 4 (drop 8 h) ! 2 = y" "take 4 (drop 8 h) ! 3 = z"
    using eq by (simp_all add: slice_def)
  with len show "12 \<le> length h \<and> h ! 8 = w \<and> h ! 9 = x \<and> h ! 10 = y \<and> h ! 11 = z"
    by simp
next
  assume a: "12 \<le> length h \<and> h ! 8 = w \<and> h ! 9 = x \<and> h ! 10 = y \<and> h ! 11 = z"
  then have "length (slice h 8 12) = 4" by (auto simp add: slice_def)
  moreover have "\<And>i. i < 4 \<Longrightarrow> slice h 8 12 ! i = [w, x, y, z] ! i"
  proof -
    fix i :: nat assume "i < 4"
    then consider "i = 0" | "i = 1" | "i = 2" | "i = 3" by linarith
    then show "slice h 8 12 ! i = [w, x, y, z] ! i"
      using a by cases (simp_all add: slice_def)
  qed
  ultimately show "slice h 8 12 = [w, x, y, z]"
    by (simp add: list_eq_iff_nth_eq)
qed

lemma ascii_literals:
  "ascii ''PNG'' = [0x50, 0x4E, 0x47]"
  "ascii ''RIFF'' = [0x52, 0x49, 0x46, 0x46]"
  "ascii ''WEBP'' = [0x57, 0x45, 0x42, 0x50]"
  by (simp_all add: ascii_def)

lemma detect_image_type_classify:
  "b64decode (take 32 s) = Inr h \<Longrightarrow> detect_image_type s = Inr (spec_classify h)"
  by (simp add: detect_image_type_def spec_classify_def startswith_prefix ascii_literals
        slice_4_iff)

lemma spec_classify_short:
  "length h < 12 \<Longrightarrow> spec_classify h \<noteq> ''webp''"
  "length h < 3 \<Longrightarrow> spec_classify h = ''png''"
  by (auto simp add: spec_classify_def prefix_def)

subsection \<open>Well-formed base64 texts\<close>

lemma table_a2b_Some:
  "c \<in> set table_b2a_base64 \<Longrightarrow> \<exists>v. table_a2b_base64 c = Some v"
  unfolding table_a2b_base64_def
  by (subst map_of_zip_is_Some [symmetric]) (simp_all add: length_table del: upt_Suc)

lemma in_table_not_pad: "c \<in> set table_b2a_base64 \<Longrightarrow> c \<noteq> BASE64_PAD"
  using pad_not_in_table by auto

lemma a2b_loop_quad_table:
  assumes "c1 \<in> set table_b2a_base64" "c2 \<in> set table_b2a_base64"
    "c3 \<in> set table_b2a_base64" "c4 \<in> set table_b2a_base64"
  shows "\<exists>x y z. \<forall>cs leftchar pads bin.
           a2b_loop (c1 # c2 # c3 # c4 # cs) 0 leftchar pads bin =
           a2b_loop cs 0 0 0 (bin @ [x, y, z])"
proof -
  from assms obtain v1 v2 v3 v4 where
    "table_a2b_base64 c1 = Some v1" "table_a2b_base64 c2 = Some v2"
    "table_a2b_base64 c3 = Some v3" "table_a2b_base64 c4 = Some v4"
    using table_a2b_Some by metis
  with assms show ?thesis
    by (intro exI [of _ "push_bit 2 v1 OR drop_bit 4 v2"]
              exI [of _ "push_bit 4 (v2 AND 15) OR drop_bit 2 v3"]
              exI [of _ "push_bit 6 (v3 AND 3) OR v4"])
       (simp add: in_table_not_pad)
qed

lemma a2b_loop_valid:
  "valid_b64 s \<Longrightarrow>
     \<exists>h. length h \<le> 3 * (length s div 4) \<and>
         (\<forall>leftchar pads bin. a2b_loop s 0 leftchar pads bin = Inr (bin @ h))"
proof (induction s rule: valid_b64.induct)
  case 1
  show ?case by simp
next
  case (2 c1 c2 c3 c4)
  then have c12: "c1 \<in> set table_b2a_base64" "c2 \<in> set table_b2a_base64" by simp_all
  then obtain v1 v2 where v12: "table_a2b_base64 c1 = Some v1" "table_a2b_base64 c2 = Some v2"
    using table_a2b_Some by metis
  from 2 consider
      (full) "c3 \<in> set table_b2a_base64" "c4 \<in> set table_b2a_base64"
    | (pad1) "c3 \<in> set table_b2a_base64" "c4 = BASE64_PAD"
    | (pad2) "c3 = BASE64_PAD" "c4 = BASE64_PAD"
    by auto
  then show ?case
  proof cases
    case full
    from a2b_loop_quad_table [OF c12 full] obtain x y z where
      "\<forall>cs leftchar pads bin. a2b_loop (c1 # c2 # c3 # c4 # cs) 0 leftchar pads bin =
           a2b_loop cs 0 0 0 (bin @ [x, y, z])" by blast
    then have "\<forall>leftchar pads bin. a2b_loop [c1, c2, c3, c4] 0 leftchar pads bin = Inr (bin @ [x, y, z])"
      by simp
    then show ?thesis by (intro exI [of _ "[x, y, z]"]) simp
  next
    case pad1
    then obtain v3 where "table_a2b_base64 c3 = Some v3" using table_a2b_Some by metis
    with pad1 c12 v12 show ?thesis
      by (intro exI [of _ "[push_bit 2 v1 OR drop_bit 4 v2, push_bit 4 (v2 AND 15) OR drop_bit 2 v3]"])
         (simp add: in_table_not_pad)
  next
    case pad2
    with c12 v12 show ?thesis
      by (intro exI [of _ "[push_bit 2 v1 OR drop_bit 4 v2]"]) (simp add: in_table_not_pad)
  qed
next
  case (3 c1 c2 c3 c4 v va)
  then have cs: "c1 \<in> set table_b2a_base64" "c2 \<in> set table_b2a_base64"
    "c3 \<in> set table_b2a_base64" "c4 \<in> set table_b2a_base64" and rest: "valid_b64 (v # va)"
    by simp_all
  from a2b_loop_quad_table [OF cs] obtain x y z where q:
      "\<And>cs leftchar pads bin. a2b_loop (c1 # c2 # c3 # c4 # cs) 0 leftchar pads bin =
           a2b_loop cs 0 0 0 (bin @ [x, y, z])" by blast
  from 3 rest obtain h where h: "length h \<le> 3 * (length (v # va) div 4)"
      "\<And>leftchar pads bin. a2b_loop (v # va) 0 leftchar pads bin = Inr (bin @ h)"
    by blast
  have len: "length (c1 # c2 # c3 # c4 # v # va) div 4 = Suc (length (v # va) div 4)"
    by simp
  have "length ([x, y, z] @ h) \<le> 3 * (length (c1 # c2 # c3 # c4 # v # va) div 4)"
    unfolding len using h(1) by simp
  moreover have "\<forall>leftchar pads bin.
      a2b_loop (c1 # c2 # c3 # c4 # v # va) 0 leftchar pads bin = Inr (bin @ [x, y, z] @ h)"
    by (simp add: q h(2) del: a2b_loop.simps)
  ultimately show ?case by blast
qed simp_all

lemma valid_b64_chars: "valid_b64 s \<Longrightarrow> set s \<subseteq> insert BASE64_PAD (set table_b2a_base64)"
  by (induction s rule: valid_b64.induct) auto

lemma b64decode_valid:
  assumes "valid_b64 s"
  shows "\<exists>h. b64decode s = Inr h \<and> length h \<le> 3 * (length s div 4)"
proof -
  have "\<not> (\<exists>c \<in> set s. (128 :: nat) \<le> of_char c)"
    using valid_b64_chars [OF assms] table_ascii pad_ascii by (auto simp: not_le)
  with a2b_loop_valid [OF assms] show ?thesis
    by (auto simp: b64decode_def a2b_base64_def)
qed

lemma valid_b64_quad:
  "c1 \<in> set table_b2a_base64 \<Longrightarrow> c2 \<in> set table_b2a_base64 \<Longrightarrow>
   c3 \<in> set table_b2a_base64 \<Longrightarrow> c4 \<in> set table_b2a_base64 \<Longrightarrow> valid_b64 r \<Longrightarrow>
   valid_b64 (c1 # c2 # c3 # c4 # r)"
  by (cases r) auto

lemma valid_b64_b64encode: "valid_b64 (b64encode bs)"
proof (induction bs rule: b64encode.induct)
  case (1 a b c rest)
  then show ?case
    by (simp only: b64encode.simps append_Cons append_Nil)
       (intro valid_b64_quad b2a_in_table sextet_bounds)
next
  case (2 a b)
  show ?case
    by (simp only: b64encode.simps valid_b64.simps b2a_in_table sextet_bounds simp_thms)
next
  case (3 a)
  show ?case
    by (simp only: b64encode.simps valid_b64.simps b2a_in_table sextet_bounds simp_thms)
next
  case 4
  show ?case by simp
qed

section \<open>Properties of the handlers\<close>

lemma detect_image_type_b64encode:
  "detect_image_type (b64encode bs) = Inr (spec_classify (take 24 bs))"
  by (rule detect_image_type_classify) (rule header_of_b64encode)

lemma detect_image_type_formats:
  "detect_image_type s = Inr fmt \<Longrightarrow> fmt = ''png'' \<or> fmt = ''jpeg'' \<or> fmt = ''webp''"
  by (auto simp: detect_image_type_def split: sum.splits if_splits)

lemma generate_request_update [simp]:
  "generate_request (e\<lparr>images_generate := g\<rparr>) p = generate_request e p"
  by (simp add: generate_request_def)

lemma edit_request_update [simp]:
  "edit_request (e\<lparr>images_generate := g\<rparr>) b p = edit_request e b p"
  by (simp add: edit_request_def)

lemma fetch_image_update [simp]:
  "fetch_image (e\<lparr>images_generate := g\<rparr>) img = fetch_image e img"
  by (simp add: fetch_image_def split: option.splits)

text \<open>The two image tools after the upstream call has returned a non-empty list.\<close>

lemma generate_image_first:
  assumes "images_generate e (generate_request e p) = Inr (Some (img # rest))"
  shows "generate_image e p =
     (case fetch_image e img of
        (Inl err, calls) \<Rightarrow> (Inl err, ImagesGenerate (generate_request e p) # calls)
      | (Inr b, calls) \<Rightarrow>
          (case detect_image_type b of
             Inl err \<Rightarrow> (Inl err, ImagesGenerate (generate_request e p) # calls)
           | Inr fmt \<Rightarrow>
               (Inr \<lparr>type = ''image'', data = b, mimeType = ''image/'' @ fmt,
                     annotations = [''case_id'' \<mapsto> uuid4_hex e, ''prompt'' \<mapsto> p]\<rparr>,
                ImagesGenerate (generate_request e p) # calls)))"
  using assms by (simp add: generate_image_def Let_def)

lemma edit_image_first:
  assumes "read_file e path = Inr bytes"
    and "images_generate e (edit_request e (b64encode bytes) p) = Inr (Some (img # rest))"
  shows "edit_image e path p =
     (case fetch_image e img of
        (Inl err, calls) \<Rightarrow>
          (Inl err, FileRead path # ImagesGenerate (edit_request e (b64encode bytes) p) # calls)
      | (Inr b, calls) \<Rightarrow>
          (case detect_image_type b of
             Inl err \<Rightarrow>
               (Inl err, FileRead path # ImagesGenerate (edit_request e (b64encode bytes) p) # calls)
           | Inr fmt \<Rightarrow>
               (Inr \<lparr>type = ''image'', data = b, mimeType = ''image/'' @ fmt,
                     annotations = [''case_id'' \<mapsto> uuid4_hex e, ''prompt'' \<mapsto> p,
                                    ''source_image'' \<mapsto> path]\<rparr>,
                FileRead path # ImagesGenerate (edit_request e (b64encode bytes) p) # calls)))"
  using assms by (simp add: edit_image_def Let_def)

text \<open>What a successful call of an image tool has gone through.\<close>

lemma generate_image_Inr:
  assumes "fst (generate_image e p) = Inr a"
  shows "\<exists>fmt. detect_image_type (data a) = Inr fmt \<and>
           a = \<lparr>type = ''image'', data = data a, mimeType = ''image/'' @ fmt,
                annotations = [''case_id'' \<mapsto> uuid4_hex e, ''prompt'' \<mapsto> p]\<rparr>"
  using assms
  by (auto simp: generate_image_def Let_def split: sum.splits option.splits list.splits prod.splits)

lemma edit_image_Inr:
  assumes "fst (edit_image e path p) = Inr a"
  shows "\<exists>fmt. detect_image_type (data a) = Inr fmt \<and>
           a = \<lparr>type = ''image'', data = data a, mimeType = ''image/'' @ fmt,
                annotations = [''case_id'' \<mapsto> uuid4_hex e, ''prompt'' \<mapsto> p,
                               ''source_image'' \<mapsto> path]\<rparr>"
  using assms
  by (auto simp: edit_image_def Let_def split: sum.splits option.splits list.splits prod.splits)

subsection \<open>Evaluations on the example inputs\<close>

lemma b64encode_example_png22:
  "b64encode example_png22 = ''iVBORw0KGgoAAAAAAAAAAAAAAAAAAA==''"
  by code_simp

lemma b64encode_example_png:
  "b64encode example_png = ''iVBORw0KGgoAAAAAAAAAAAAAAAAAAAAA''"
  by code_simp

lemma detect_inline_png:
  "detect_image_type ''iVBORw0KGgoAAAAAAAAAAAAAAAAAAAAA'' = Inr ''png''"
  by code_simp

section \<open>The claims\<close>

text \<open>
  C1. For every base64-encoded input of at least 32 characters, that is \<open>b64encode bs\<close>
  for a payload \<open>bs\<close>, the detector decodes the first 32 characters into the first
  \<open>min 24 (length bs)\<close> bytes of the payload: 24 header bytes when the payload has at
  least 24 bytes, and the whole payload of 22 or 23 bytes when the 32 characters end in
  padding. It classifies the header by the ordered rules of \<^const>\<open>spec_classify\<close>, the
  first match winning: the PNG signature gives \<open>png\<close>, else \<open>FF D8 FF\<close> gives \<open>jpeg\<close>,
  else \<open>RIFF\<close> with \<open>WEBP\<close> at offsets 8 to 11 gives \<open>webp\<close>, else \<open>png\<close>.
\<close>

theorem detect_image_type_header:
  assumes "32 \<le> length (b64encode bs)"
  shows "b64decode (take 32 (b64encode bs)) = Inr (take 24 bs)
         \<and> length (take 24 bs) = min 24 (length bs) \<and> 22 \<le> length bs
         \<and> detect_image_type (b64encode bs) = Inr (spec_classify (take 24 bs))"
proof -
  from assms have "22 \<le> length bs"
    by (simp add: length_b64encode)
  then show ?thesis
    by (simp add: header_of_b64encode detect_image_type_b64encode)
qed

theorem detect_image_type_header_witness:
  "32 \<le> length (b64encode example_webp)
   \<and> b64decode (take 32 (b64encode example_webp)) = Inr example_webp
   \<and> length example_webp = 24
   \<and> detect_image_type (b64encode example_webp) = Inr ''webp''"
proof -
  have len: "length example_webp = 24"
    by (simp add: example_webp_def)
  then have h: "32 \<le> length (b64encode example_webp)"
    by (simp add: length_b64encode)
  have c: "spec_classify example_webp = ''webp''"
    by (simp add: spec_classify_def example_webp_def)
  from detect_image_type_header [OF h] len c h show ?thesis by simp
qed

text \<open>
  C1, where it says that the header always has 24 bytes: the 22 bytes of
  \<^const>\<open>example_png22\<close> encode to a base64 string of exactly 32 characters, and its first
  32 characters decode to 22 header bytes, not 24.
\<close>

theorem detect_image_type_header_counterexample:
  "b64encode example_png22 = ''iVBORw0KGgoAAAAAAAAAAAAAAAAAAA==''
   \<and> 32 \<le> length ''iVBORw0KGgoAAAAAAAAAAAAAAAAAAA==''
   \<and> b64decode (take 32 ''iVBORw0KGgoAAAAAAAAAAAAAAAAAAA=='') = Inr example_png22
   \<and> length example_png22 = 22
   \<and> length example_png22 \<noteq> 24"
proof -
  have "b64decode (take 32 ''iVBORw0KGgoAAAAAAAAAAAAAAAAAAA=='') = Inr example_png22"
    by code_simp
  moreover have "length example_png22 = 22"
    by (simp add: example_png22_def)
  ultimately show ?thesis
    by (simp add: b64encode_example_png22)
qed

text \<open>
  C2. The result of the detector depends only on the first 32 characters of its input:
  two inputs that agree on them get the same result (the same classification, or the
  same error). The detector is a function of its argument alone, so two runs on the same
  input agree.
\<close>

theorem detect_image_type_prefix:
  "take 32 s = take 32 t \<Longrightarrow> detect_image_type s = detect_image_type t"
  by (simp add: detect_image_type_def)

theorem detect_image_type_prefix_witness:
  "take 32 (''iVBORw0KGgoAAAAAAAAAAAAAAAAAAAAA'' @ ''AAAA'')
     = take 32 (''iVBORw0KGgoAAAAAAAAAAAAAAAAAAAAA'' @ ''/9j/'')
   \<and> detect_image_type (''iVBORw0KGgoAAAAAAAAAAAAAAAAAAAAA'' @ ''AAAA'')
     = detect_image_type (''iVBORw0KGgoAAAAAAAAAAAAAAAAAAAAA'' @ ''/9j/'')"
proof -
  have h: "take 32 (''iVBORw0KGgoAAAAAAAAAAAAAAAAAAAAA'' @ ''AAAA'')
     = take 32 (''iVBORw0KGgoAAAAAAAAAAAAAAAAAAAAA'' @ ''/9j/'')"
    by simp
  from h detect_image_type_prefix [OF h] show ?thesis by (rule conjI)
qed

text \<open>
  C9. On every well-formed base64 input shorter than 32 characters (the empty string
  included) the detector does not raise: the input decodes to a header of fewer than 24
  bytes and the result is the classification of that header, where a header of fewer
  than 12 bytes is never \<open>webp\<close> (the slice at offsets 8 to 11 is shorter than \<open>WEBP\<close> and
  compares unequal) and a header of fewer than 3 bytes, too short for any signature, is
  \<open>png\<close>.
\<close>

theorem detect_image_type_short:
  assumes "valid_b64 s" and "length s < 32"
  shows "\<exists>h. b64decode (take 32 s) = Inr h \<and> length h < 24
           \<and> detect_image_type s = Inr (spec_classify h)
           \<and> (length h < 12 \<longrightarrow> detect_image_type s \<noteq> Inr ''webp'')
           \<and> (length h < 3 \<longrightarrow> detect_image_type s = Inr ''png'')"
proof -
  from b64decode_valid [OF assms(1)] obtain h
    where h: "b64decode s = Inr h" "length h \<le> 3 * (length s div 4)" by blast
  from assms(2) have t: "take 32 s = s" by simp
  from assms(2) h(2) have "length h < 24" by simp
  moreover have "detect_image_type s = Inr (spec_classify h)"
    by (rule detect_image_type_classify) (simp add: t h(1))
  ultimately show ?thesis
    using h(1) t spec_classify_short [of h] by auto
qed

theorem detect_image_type_short_witness:
  "valid_b64 ''/9g='' \<and> length ''/9g='' < 32
   \<and> b64decode (take 32 ''/9g='') = Inr [0xFF, 0xD8]
   \<and> detect_image_type ''/9g='' = Inr ''png''"
proof -
  have v: "valid_b64 ''/9g=''"
    by (simp add: table_b2a_base64_def BASE64_PAD_def)
  have l: "length ''/9g='' < 32" by simp
  have d: "b64decode (take 32 ''/9g='') = Inr [0xFF, 0xD8]" by code_simp
  from detect_image_type_short [OF v l] d have "detect_image_type ''/9g='' = Inr ''png''"
    by auto
  with v l d show ?thesis by simp
qed

text \<open>
  C3. When the first image reference has no usable \<open>url\<close> (\<open>None\<close> or empty) and a
  populated \<open>b64_json\<close>, the fetch step returns that payload unchanged and makes no
  request. In \<open>generate_image\<close> and \<open>edit_image\<close> the only upstream call is then the
  image generation itself, and the returned \<open>ImageContent\<close>, which exists exactly when
  the detector accepts the payload, carries the payload as its \<open>data\<close>.
\<close>

theorem inline_payload_verbatim:
  assumes "url img = None \<or> url img = Some []"
    and "b64_json img = Some b" and "b \<noteq> []"
  shows "fetch_image e img = (Inr b, [])
    \<and> (images_generate e (generate_request e p) = Inr (Some (img # rest)) \<longrightarrow>
         generate_image e p =
           (case detect_image_type b of
              Inl err \<Rightarrow> Inl err
            | Inr fmt \<Rightarrow>
                Inr \<lparr>type = ''image'', data = b, mimeType = ''image/'' @ fmt,
                     annotations = [''case_id'' \<mapsto> uuid4_hex e, ''prompt'' \<mapsto> p]\<rparr>,
            [ImagesGenerate (generate_request e p)]))
    \<and> (read_file e path = Inr bytes
         \<and> images_generate e (edit_request e (b64encode bytes) p) = Inr (Some (img # rest)) \<longrightarrow>
         edit_image e path p =
           (case detect_image_type b of
              Inl err \<Rightarrow> Inl err
            | Inr fmt \<Rightarrow>
                Inr \<lparr>type = ''image'', data = b, mimeType = ''image/'' @ fmt,
                     annotations = [''case_id'' \<mapsto> uuid4_hex e, ''prompt'' \<mapsto> p,
                                    ''source_image'' \<mapsto> path]\<rparr>,
            [FileRead path, ImagesGenerate (edit_request e (b64encode bytes) p)]))"
proof -
  from assms have f: "fetch_image e img = (Inr b, [])"
    by (auto simp: fetch_image_def)
  show ?thesis
    by (auto simp: f generate_image_first edit_image_first split: sum.splits)
qed

theorem inline_payload_verbatim_witness:
  "(url inline_png = None \<or> url inline_png = Some [])
   \<and> b64_json inline_png = Some ''iVBORw0KGgoAAAAAAAAAAAAAAAAAAAAA''
   \<and> ''iVBORw0KGgoAAAAAAAAAAAAAAAAAAAAA'' \<noteq> []
   \<and> images_generate example_env (generate_request example_env ''a cat'')
       = Inr (Some (inline_png # [empty_ref]))
   \<and> read_file example_env ''/tmp/cat.png'' = Inr example_png
   \<and> images_generate example_env (edit_request example_env (b64encode example_png) ''a cat'')
       = Inr (Some (inline_png # [empty_ref]))
   \<and> fetch_image example_env inline_png = (Inr ''iVBORw0KGgoAAAAAAAAAAAAAAAAAAAAA'', [])
   \<and> generate_image example_env ''a cat'' =
       (Inr \<lparr>type = ''image'', data = ''iVBORw0KGgoAAAAAAAAAAAAAAAAAAAAA'',
             mimeType = ''image/png'',
             annotations = [''case_id'' \<mapsto> ''0123456789abcdef0123456789abcdef'',
                            ''prompt'' \<mapsto> ''a cat'']\<rparr>,
        [ImagesGenerate (generate_request example_env ''a cat'')])
   \<and> edit_image example_env ''/tmp/cat.png'' ''a cat'' =
       (Inr \<lparr>type = ''image'', data = ''iVBORw0KGgoAAAAAAAAAAAAAAAAAAAAA'',
             mimeType = ''image/png'',
             annotations = [''case_id'' \<mapsto> ''0123456789abcdef0123456789abcdef'',
                            ''prompt'' \<mapsto> ''a cat'', ''source_image'' \<mapsto> ''/tmp/cat.png'']\<rparr>,
        [FileRead ''/tmp/cat.png'',
         ImagesGenerate (edit_request example_env (b64encode example_png) ''a cat'')])"
proof -
  have u: "url inline_png = None \<or> url inline_png = Some []"
    and b: "b64_json inline_png = Some ''iVBORw0KGgoAAAAAAAAAAAAAAAAAAAAA''"
    and n: "''iVBORw0KGgoAAAAAAAAAAAAAAAAAAAAA'' \<noteq> []"
    by (simp_all add: inline_png_def)
  have g: "images_generate example_env (generate_request example_env ''a cat'')
       = Inr (Some (inline_png # [empty_ref]))"
    and r: "read_file example_env ''/tmp/cat.png'' = Inr example_png"
    and g': "images_generate example_env (edit_request example_env (b64encode example_png) ''a cat'')
       = Inr (Some (inline_png # [empty_ref]))"
    and i: "uuid4_hex example_env = ''0123456789abcdef0123456789abcdef''"
    by (simp_all add: example_env_def)
  from inline_payload_verbatim [OF u b n, of example_env "''a cat''" "[empty_ref]"
      "''/tmp/cat.png''" example_png]
  show ?thesis
    using u b n g r g' by (simp add: detect_inline_png i)
qed

text \<open>
  C4. When the first image reference has neither a usable \<open>url\<close> nor a usable \<open>b64_json\<close>
  (each \<open>None\<close> or empty), the fetch step raises \<open>ValueError("No image data in
  response")\<close>, the error the specification calls \<open>NoImageData\<close>, and both image tools
  fail with it: no \<open>ImageContent\<close> is returned.
\<close>

theorem no_image_data:
  assumes "url img = None \<or> url img = Some []"
    and "b64_json img = None \<or> b64_json img = Some []"
  shows "fetch_image e img = (Inl (ValueError ''No image data in response''), [])
    \<and> (images_generate e (generate_request e p) = Inr (Some (img # rest)) \<longrightarrow>
         generate_image e p =
           (Inl (ValueError ''No image data in response''),
            [ImagesGenerate (generate_request e p)]))
    \<and> (read_file e path = Inr bytes
         \<and> images_generate e (edit_request e (b64encode bytes) p) = Inr (Some (img # rest)) \<longrightarrow>
         edit_image e path p =
           (Inl (ValueError ''No image data in response''),
            [FileRead path, ImagesGenerate (edit_request e (b64encode bytes) p)]))"
proof -
  from assms have f: "fetch_image e img = (Inl (ValueError ''No image data in response''), [])"
    by (auto simp: fetch_image_def)
  show ?thesis
    by (auto simp: f generate_image_first edit_image_first)
qed

theorem no_image_data_witness:
  "(url empty_ref = None \<or> url empty_ref = Some [])
   \<and> (b64_json empty_ref = None \<or> b64_json empty_ref = Some [])
   \<and> images_generate (example_env\<lparr>images_generate := \<lambda>req. Inr (Some [empty_ref])\<rparr>)
        (generate_request (example_env\<lparr>images_generate := \<lambda>req. Inr (Some [empty_ref])\<rparr>) ''a cat'')
       = Inr (Some (empty_ref # []))
   \<and> read_file (example_env\<lparr>images_generate := \<lambda>req. Inr (Some [empty_ref])\<rparr>) ''/tmp/cat.png''
       = Inr example_png
   \<and> fetch_image (example_env\<lparr>images_generate := \<lambda>req. Inr (Some [empty_ref])\<rparr>) empty_ref
       = (Inl (ValueError ''No image data in response''), [])
   \<and> fst (generate_image (example_env\<lparr>images_generate := \<lambda>req. Inr (Some [empty_ref])\<rparr>) ''a cat'')
       = Inl (ValueError ''No image data in response'')
   \<and> fst (edit_image (example_env\<lparr>images_generate := \<lambda>req. Inr (Some [empty_ref])\<rparr>)
            ''/tmp/cat.png'' ''a cat'')
       = Inl (ValueError ''No image data in response'')"
proof -
  let ?e = "example_env\<lparr>images_generate := \<lambda>req. Inr (Some [empty_ref])\<rparr>"
  have u: "url empty_ref = None \<or> url empty_ref = Some []"
    and b: "b64_json empty_ref = None \<or> b64_json empty_ref = Some []"
    by (simp_all add: empty_ref_def)
  have r: "read_file ?e ''/tmp/cat.png'' = Inr example_png"
    by (simp add: example_env_def)
  from no_image_data [OF u b, of ?e "''a cat''" "[]" "''/tmp/cat.png''" example_png]
  show ?thesis
    using u b r by simp
qed

text \<open>
  C5. When the upstream response holds an empty image list, \<open>generate_image\<close> and
  \<open>edit_image\<close> raise \<open>ValueError("No images generated")\<close>, the error the specification
  calls \<open>NoImageData\<close>, and return no \<open>ImageContent\<close>.
\<close>

theorem empty_image_list:
  "(images_generate e (generate_request e p) = Inr (Some []) \<longrightarrow>
      generate_image e p =
        (Inl (ValueError ''No images generated''), [ImagesGenerate (generate_request e p)]))
   \<and> (read_file e path = Inr bytes
       \<and> images_generate e (edit_request e (b64encode bytes) p) = Inr (Some []) \<longrightarrow>
      edit_image e path p =
        (Inl (ValueError ''No images generated''),
         [FileRead path, ImagesGenerate (edit_request e (b64encode bytes) p)]))"
  by (simp add: generate_image_def edit_image_def Let_def)

theorem empty_image_list_witness:
  "images_generate (example_env\<lparr>images_generate := \<lambda>req. Inr (Some [])\<rparr>)
       (generate_request (example_env\<lparr>images_generate := \<lambda>req. Inr (Some [])\<rparr>) ''a cat'')
     = Inr (Some [])
   \<and> read_file (example_env\<lparr>images_generate := \<lambda>req. Inr (Some [])\<rparr>) ''/tmp/cat.png''
     = Inr example_png
   \<and> fst (generate_image (example_env\<lparr>images_generate := \<lambda>req. Inr (Some [])\<rparr>) ''a cat'')
     = Inl (ValueError ''No images generated'')
   \<and> fst (edit_image (example_env\<lparr>images_generate := \<lambda>req. Inr (Some [])\<rparr>)
          ''/tmp/cat.png'' ''a cat'')
     = Inl (ValueError ''No images generated'')"
proof -
  let ?e = "example_env\<lparr>images_generate := \<lambda>req. Inr (Some [])\<rparr>"
  have r: "read_file ?e ''/tmp/cat.png'' = Inr example_png"
    by (simp add: example_env_def)
  from empty_image_list [of ?e "''a cat''" "''/tmp/cat.png''" example_png]
  show ?thesis
    using r by simp
qed

text \<open>
  C6. The \<open>mimeType\<close> of every \<open>ImageContent\<close> returned by \<open>generate_image\<close> or
  \<open>edit_image\<close> is \<open>"image/"\<close> followed by the detector's classification of its \<open>data\<close>,
  and so it is one of \<open>image/png\<close>, \<open>image/jpeg\<close> and \<open>image/webp\<close>.
\<close>

theorem mime_type_of_artifact:
  assumes "fst (generate_image e p) = Inr a \<or> fst (edit_image e path p) = Inr a"
  shows "(\<exists>fmt. detect_image_type (data a) = Inr fmt \<and> mimeType a = ''image/'' @ fmt)
         \<and> mimeType a \<in> {''image/png'', ''image/jpeg'', ''image/webp''}"
proof -
  from assms obtain fmt ann where d: "detect_image_type (data a) = Inr fmt"
    and a: "a = \<lparr>type = ''image'', data = data a, mimeType = ''image/'' @ fmt,
                 annotations = ann\<rparr>"
    using generate_image_Inr [of e p a] edit_image_Inr [of e path p a] by blast
  from a have m: "mimeType a = ''image/'' @ fmt"
    by (metis ImageContent.select_convs(3))
  from detect_image_type_formats [OF d] m have
    "mimeType a \<in> {''image/png'', ''image/jpeg'', ''image/webp''}" by auto
  with d m show ?thesis by blast
qed

theorem mime_type_of_artifact_witness:
  "(fst (generate_image example_env ''a cat'') =
      Inr \<lparr>type = ''image'', data = ''iVBORw0KGgoAAAAAAAAAAAAAAAAAAAAA'',
           mimeType = ''image/png'',
           annotations = [''case_id'' \<mapsto> ''0123456789abcdef0123456789abcdef'',
                          ''prompt'' \<mapsto> ''a cat'']\<rparr>
    \<or> fst (edit_image example_env ''/tmp/cat.png'' ''a cat'') =
      Inr \<lparr>type = ''image'', data = ''iVBORw0KGgoAAAAAAAAAAAAAAAAAAAAA'',
           mimeType = ''image/png'',
           annotations = [''case_id'' \<mapsto> ''0123456789abcdef0123456789abcdef'',
                          ''prompt'' \<mapsto> ''a cat'']\<rparr>)
   \<and> detect_image_type ''iVBORw0KGgoAAAAAAAAAAAAAAAAAAAAA'' = Inr ''png''
   \<and> ''image/png'' \<in> {''image/png'', ''image/jpeg'', ''image/webp''}"
proof -
  let ?a = "\<lparr>type = ''image'', data = ''iVBORw0KGgoAAAAAAAAAAAAAAAAAAAAA'',
           mimeType = ''image/png'',
           annotations = [''case_id'' \<mapsto> ''0123456789abcdef0123456789abcdef'',
                          ''prompt'' \<mapsto> ''a cat'']\<rparr>"
  have g: "fst (generate_image example_env ''a cat'') = Inr ?a"
    by (simp add: generate_image_def generate_request_def fetch_image_def example_env_def
          inline_png_def detect_inline_png)
  then have h: "fst (generate_image example_env ''a cat'') = Inr ?a
      \<or> fst (edit_image example_env ''/tmp/cat.png'' ''a cat'') = Inr ?a" by (rule disjI1)
  from mime_type_of_artifact [OF h] h show ?thesis
    by (simp add: detect_inline_png)
qed

text \<open>
  C8. The annotations of every returned \<open>ImageContent\<close> hold the caller's prompt under
  the key \<open>prompt\<close>. Those of \<open>generate_image\<close> have no \<open>source_image\<close> (their keys are
  \<open>case_id\<close> and \<open>prompt\<close>); those of \<open>edit_image\<close> hold the image path under
  \<open>source_image\<close> (their keys are \<open>case_id\<close>, \<open>prompt\<close> and \<open>source_image\<close>).
\<close>

theorem annotations_of_artifact:
  "(fst (generate_image e p) = Inr a \<longrightarrow>
      annotations a ''prompt'' = Some p \<and> annotations a ''source_image'' = None
      \<and> dom (annotations a) = {''case_id'', ''prompt''})
   \<and> (fst (edit_image e path q) = Inr a' \<longrightarrow>
      annotations a' ''prompt'' = Some q \<and> annotations a' ''source_image'' = Some path
      \<and> dom (annotations a') = {''case_id'', ''prompt'', ''source_image''})"
proof (intro conjI impI)
  assume "fst (generate_image e p) = Inr a"
  from generate_image_Inr [OF this] obtain fmt where
    "a = \<lparr>type = ''image'', data = data a, mimeType = ''image/'' @ fmt,
          annotations = [''case_id'' \<mapsto> uuid4_hex e, ''prompt'' \<mapsto> p]\<rparr>" by blast
  then have ann: "annotations a = [''case_id'' \<mapsto> uuid4_hex e, ''prompt'' \<mapsto> p]"
    by (metis ImageContent.select_convs(4))
  show "annotations a ''prompt'' = Some p" "annotations a ''source_image'' = None"
    "dom (annotations a) = {''case_id'', ''prompt''}"
    by (auto simp: ann)
next
  assume "fst (edit_image e path q) = Inr a'"
  from edit_image_Inr [OF this] obtain fmt where
    "a' = \<lparr>type = ''image'', data = data a', mimeType = ''image/'' @ fmt,
           annotations = [''case_id'' \<mapsto> uuid4_hex e, ''prompt'' \<mapsto> q,
                          ''source_image'' \<mapsto> path]\<rparr>" by blast
  then have ann: "annotations a' = [''case_id'' \<mapsto> uuid4_hex e, ''prompt'' \<mapsto> q,
                          ''source_image'' \<mapsto> path]"
    by (metis ImageContent.select_convs(4))
  show "annotations a' ''prompt'' = Some q" "annotations a' ''source_image'' = Some path"
    "dom (annotations a') = {''case_id'', ''prompt'', ''source_image''}"
    by (auto simp: ann)
qed

theorem annotations_of_artifact_witness:
  "fst (generate_image example_env ''a cat'') =
      Inr \<lparr>type = ''image'', data = ''iVBORw0KGgoAAAAAAAAAAAAAAAAAAAAA'',
           mimeType = ''image/png'',
           annotations = [''case_id'' \<mapsto> ''0123456789abcdef0123456789abcdef'',
                          ''prompt'' \<mapsto> ''a cat'']\<rparr>
   \<and> fst (edit_image example_env ''/tmp/cat.png'' ''a dog'') =
      Inr \<lparr>type = ''image'', data = ''iVBORw0KGgoAAAAAAAAAAAAAAAAAAAAA'',
           mimeType = ''image/png'',
           annotations = [''case_id'' \<mapsto> ''0123456789abcdef0123456789abcdef'',
                          ''prompt'' \<mapsto> ''a dog'', ''source_image'' \<mapsto> ''/tmp/cat.png'']\<rparr>
   \<and> [''case_id'' \<mapsto> ''0123456789abcdef0123456789abcdef'', ''prompt'' \<mapsto> ''a cat'']
        ''source_image'' = None
   \<and> [''case_id'' \<mapsto> ''0123456789abcdef0123456789abcdef'', ''prompt'' \<mapsto> ''a dog'',
       ''source_image'' \<mapsto> ''/tmp/cat.png''] ''source_image'' = Some ''/tmp/cat.png''"
proof -
  let ?a = "\<lparr>type = ''image'', data = ''iVBORw0KGgoAAAAAAAAAAAAAAAAAAAAA'',
           mimeType = ''image/png'',
           annotations = [''case_id'' \<mapsto> ''0123456789abcdef0123456789abcdef'',
                          ''prompt'' \<mapsto> ''a cat'']\<rparr>"
  let ?a' = "\<lparr>type = ''image'', data = ''iVBORw0KGgoAAAAAAAAAAAAAAAAAAAAA'',
           mimeType = ''image/png'',
           annotations = [''case_id'' \<mapsto> ''0123456789abcdef0123456789abcdef'',
                          ''prompt'' \<mapsto> ''a dog'', ''source_image'' \<mapsto> ''/tmp/cat.png'']\<rparr>"
  have g: "fst (generate_image example_env ''a cat'') = Inr ?a"
    by (simp add: generate_image_def generate_request_def fetch_image_def example_env_def
          inline_png_def detect_inline_png)
  have e: "fst (edit_image example_env ''/tmp/cat.png'' ''a dog'') = Inr ?a'"
    by (simp add: edit_image_def edit_request_def fetch_image_def example_env_def
          inline_png_def detect_inline_png)
  from annotations_of_artifact [of example_env "''a cat''" ?a "''/tmp/cat.png''" "''a dog''" ?a']
    g e show ?thesis by simp
qed

text \<open>
  C10. Of the image references the upstream call returns, only the first is used.
  When the response is a list with first reference \<open>img\<close>, the result of
  \<open>generate_image\<close> and of \<open>edit_image\<close> is the normalisation of \<open>img\<close>: what the fetch
  step gives for \<open>img\<close> (its error, or its base64 text as \<open>data\<close>, with the detector's
  classification of it in \<open>mimeType\<close>), and the calls are the upstream call followed by
  those of that fetch. The references after the first occur nowhere in it, so two
  responses with the same first reference, whatever follows it, give the same result
  and the same calls.
\<close>

theorem only_first_image_used:
  "(g (generate_request e p) = Inr (Some (img # rest)) \<longrightarrow>
      generate_image (e\<lparr>images_generate := g\<rparr>) p =
        (case fetch_image e img of
           (Inl err, calls) \<Rightarrow> (Inl err, ImagesGenerate (generate_request e p) # calls)
         | (Inr b, calls) \<Rightarrow>
             (case detect_image_type b of
                Inl err \<Rightarrow> (Inl err, ImagesGenerate (generate_request e p) # calls)
              | Inr fmt \<Rightarrow>
                  (Inr \<lparr>type = ''image'', data = b, mimeType = ''image/'' @ fmt,
                        annotations = [''case_id'' \<mapsto> uuid4_hex e, ''prompt'' \<mapsto> p]\<rparr>,
                   ImagesGenerate (generate_request e p) # calls))))
   \<and> (read_file e path = Inr bytes
      \<and> g (edit_request e (b64encode bytes) p) = Inr (Some (img # rest)) \<longrightarrow>
      edit_image (e\<lparr>images_generate := g\<rparr>) path p =
        (case fetch_image e img of
           (Inl err, calls) \<Rightarrow>
             (Inl err,
              FileRead path # ImagesGenerate (edit_request e (b64encode bytes) p) # calls)
         | (Inr b, calls) \<Rightarrow>
             (case detect_image_type b of
                Inl err \<Rightarrow>
                  (Inl err,
                   FileRead path # ImagesGenerate (edit_request e (b64encode bytes) p) # calls)
              | Inr fmt \<Rightarrow>
                  (Inr \<lparr>type = ''image'', data = b, mimeType = ''image/'' @ fmt,
                        annotations = [''case_id'' \<mapsto> uuid4_hex e, ''prompt'' \<mapsto> p,
                                       ''source_image'' \<mapsto> path]\<rparr>,
                   FileRead path # ImagesGenerate (edit_request e (b64encode bytes) p) # calls))))
   \<and> (g (generate_request e p) = Inr (Some (img # rest))
      \<and> g' (generate_request e p) = Inr (Some (img # rest')) \<longrightarrow>
      generate_image (e\<lparr>images_generate := g\<rparr>) p
        = generate_image (e\<lparr>images_generate := g'\<rparr>) p)
   \<and> (read_file e path = Inr bytes
      \<and> g (edit_request e (b64encode bytes) p) = Inr (Some (img # rest))
      \<and> g' (edit_request e (b64encode bytes) p) = Inr (Some (img # rest')) \<longrightarrow>
      edit_image (e\<lparr>images_generate := g\<rparr>) path p
        = edit_image (e\<lparr>images_generate := g'\<rparr>) path p)"
proof -
  have gen: "generate_image (e\<lparr>images_generate := h\<rparr>) p =
        (case fetch_image e img of
           (Inl err, calls) \<Rightarrow> (Inl err, ImagesGenerate (generate_request e p) # calls)
         | (Inr b, calls) \<Rightarrow>
             (case detect_image_type b of
                Inl err \<Rightarrow> (Inl err, ImagesGenerate (generate_request e p) # calls)
              | Inr fmt \<Rightarrow>
                  (Inr \<lparr>type = ''image'', data = b, mimeType = ''image/'' @ fmt,
                        annotations = [''case_id'' \<mapsto> uuid4_hex e, ''prompt'' \<mapsto> p]\<rparr>,
                   ImagesGenerate (generate_request e p) # calls)))"
    if "h (generate_request e p) = Inr (Some (img # tl))" for h tl
    using generate_image_first [of "e\<lparr>images_generate := h\<rparr>" p img tl] that
    by (simp split: prod.splits sum.splits)
  have edit: "edit_image (e\<lparr>images_generate := h\<rparr>) path p =
        (case fetch_image e img of
           (Inl err, calls) \<Rightarrow>
             (Inl err,
              FileRead path # ImagesGenerate (edit_request e (b64encode bytes) p) # calls)
         | (Inr b, calls) \<Rightarrow>
             (case detect_image_type b of
                Inl err \<Rightarrow>
                  (Inl err,
                   FileRead path # ImagesGenerate (edit_request e (b64encode bytes) p) # calls)
              | Inr fmt \<Rightarrow>
                  (Inr \<lparr>type = ''image'', data = b, mimeType = ''image/'' @ fmt,
                        annotations = [''case_id'' \<mapsto> uuid4_hex e, ''prompt'' \<mapsto> p,
                                       ''source_image'' \<mapsto> path]\<rparr>,
                   FileRead path # ImagesGenerate (edit_request e (b64encode bytes) p) # calls)))"
    if "read_file e path = Inr bytes"
      and "h (edit_request e (b64encode bytes) p) = Inr (Some (img # tl))" for h tl
    using edit_image_first [of "e\<lparr>images_generate := h\<rparr>" path bytes p img tl] that
    by (simp split: prod.splits sum.splits)
  show ?thesis
  proof (intro conjI impI)
    assume "g (generate_request e p) = Inr (Some (img # rest))"
    then show "generate_image (e\<lparr>images_generate := g\<rparr>) p =
        (case fetch_image e img of
           (Inl err, calls) \<Rightarrow> (Inl err, ImagesGenerate (generate_request e p) # calls)
         | (Inr b, calls) \<Rightarrow>
             (case detect_image_type b of
                Inl err \<Rightarrow> (Inl err, ImagesGenerate (generate_request e p) # calls)
              | Inr fmt \<Rightarrow>
                  (Inr \<lparr>type = ''image'', data = b, mimeType = ''image/'' @ fmt,
                        annotations = [''case_id'' \<mapsto> uuid4_hex e, ''prompt'' \<mapsto> p]\<rparr>,
                   ImagesGenerate (generate_request e p) # calls)))"
      by (rule gen)
  next
    assume "read_file e path = Inr bytes
      \<and> g (edit_request e (b64encode bytes) p) = Inr (Some (img # rest))"
    then show "edit_image (e\<lparr>images_generate := g\<rparr>) path p =
        (case fetch_image e img of
           (Inl err, calls) \<Rightarrow>
             (Inl err,
              FileRead path # ImagesGenerate (edit_request e (b64encode bytes) p) # calls)
         | (Inr b, calls) \<Rightarrow>
             (case detect_image_type b of
                Inl err \<Rightarrow>
                  (Inl err,
                   FileRead path # ImagesGenerate (edit_request e (b64encode bytes) p) # calls)
              | Inr fmt \<Rightarrow>
                  (Inr \<lparr>type = ''image'', data = b, mimeType = ''image/'' @ fmt,
                        annotations = [''case_id'' \<mapsto> uuid4_hex e, ''prompt'' \<mapsto> p,
                                       ''source_image'' \<mapsto> path]\<rparr>,
                   FileRead path # ImagesGenerate (edit_request e (b64encode bytes) p) # calls)))"
      using edit by blast
  next
    assume "g (generate_request e p) = Inr (Some (img # rest))
      \<and> g' (generate_request e p) = Inr (Some (img # rest'))"
    then show "generate_image (e\<lparr>images_generate := g\<rparr>) p
        = generate_image (e\<lparr>images_generate := g'\<rparr>) p"
      using gen [of g rest] gen [of g' rest'] by simp
  next
    assume "read_file e path = Inr bytes
      \<and> g (edit_request e (b64encode bytes) p) = Inr (Some (img # rest))
      \<and> g' (edit_request e (b64encode bytes) p) = Inr (Some (img # rest'))"
    then show "edit_image (e\<lparr>images_generate := g\<rparr>) path p
        = edit_image (e\<lparr>images_generate := g'\<rparr>) path p"
      using edit [of g rest] edit [of g' rest'] by simp
  qed
qed

theorem only_first_image_used_witness:
  "(\<lambda>req. Inr (Some [inline_png, empty_ref])) (generate_request example_env ''a cat'')
      = Inr (Some (inline_png # [empty_ref]))
   \<and> (\<lambda>req. Inr (Some [inline_png])) (generate_request example_env ''a cat'')
      = Inr (Some (inline_png # []))
   \<and> read_file example_env ''/tmp/cat.png'' = Inr example_png
   \<and> fetch_image example_env inline_png = (Inr ''iVBORw0KGgoAAAAAAAAAAAAAAAAAAAAA'', [])
   \<and> generate_image (example_env\<lparr>images_generate := \<lambda>req. Inr (Some [inline_png, empty_ref])\<rparr>)
        ''a cat''
      = (Inr \<lparr>type = ''image'', data = ''iVBORw0KGgoAAAAAAAAAAAAAAAAAAAAA'',
              mimeType = ''image/png'',
              annotations = [''case_id'' \<mapsto> ''0123456789abcdef0123456789abcdef'',
                             ''prompt'' \<mapsto> ''a cat'']\<rparr>,
         [ImagesGenerate (generate_request example_env ''a cat'')])
   \<and> edit_image (example_env\<lparr>images_generate := \<lambda>req. Inr (Some [inline_png, empty_ref])\<rparr>)
        ''/tmp/cat.png'' ''a cat''
      = (Inr \<lparr>type = ''image'', data = ''iVBORw0KGgoAAAAAAAAAAAAAAAAAAAAA'',
              mimeType = ''image/png'',
              annotations = [''case_id'' \<mapsto> ''0123456789abcdef0123456789abcdef'',
                             ''prompt'' \<mapsto> ''a cat'', ''source_image'' \<mapsto> ''/tmp/cat.png'']\<rparr>,
         [FileRead ''/tmp/cat.png'',
          ImagesGenerate (edit_request example_env (b64encode example_png) ''a cat'')])
   \<and> generate_image (example_env\<lparr>images_generate := \<lambda>req. Inr (Some [inline_png, empty_ref])\<rparr>)
        ''a cat''
      = generate_image (example_env\<lparr>images_generate := \<lambda>req. Inr (Some [inline_png])\<rparr>) ''a cat''
   \<and> edit_image (example_env\<lparr>images_generate := \<lambda>req. Inr (Some [inline_png, empty_ref])\<rparr>)
        ''/tmp/cat.png'' ''a cat''
      = edit_image (example_env\<lparr>images_generate := \<lambda>req. Inr (Some [inline_png])\<rparr>)
        ''/tmp/cat.png'' ''a cat''"
proof -
  have r: "read_file example_env ''/tmp/cat.png'' = Inr example_png"
    and i: "uuid4_hex example_env = ''0123456789abcdef0123456789abcdef''"
    by (simp_all add: example_env_def)
  have f: "fetch_image example_env inline_png = (Inr ''iVBORw0KGgoAAAAAAAAAAAAAAAAAAAAA'', [])"
    by (simp add: fetch_image_def inline_png_def)
  note inst = only_first_image_used [of "\<lambda>req. Inr (Some [inline_png, empty_ref])" example_env
      "''a cat''" inline_png "[empty_ref]" "''/tmp/cat.png''" example_png
      "\<lambda>req. Inr (Some [inline_png])" "[]"]
  from inst r have same:
    "generate_image (example_env\<lparr>images_generate := \<lambda>req. Inr (Some [inline_png, empty_ref])\<rparr>)
        ''a cat''
      = generate_image (example_env\<lparr>images_generate := \<lambda>req. Inr (Some [inline_png])\<rparr>) ''a cat''"
    "edit_image (example_env\<lparr>images_generate := \<lambda>req. Inr (Some [inline_png, empty_ref])\<rparr>)
        ''/tmp/cat.png'' ''a cat''
      = edit_image (example_env\<lparr>images_generate := \<lambda>req. Inr (Some [inline_png])\<rparr>)
        ''/tmp/cat.png'' ''a cat''"
    by blast+
  from inst r have first:
    "generate_image (example_env\<lparr>images_generate := \<lambda>req. Inr (Some [inline_png, empty_ref])\<rparr>)
        ''a cat''
      = (Inr \<lparr>type = ''image'', data = ''iVBORw0KGgoAAAAAAAAAAAAAAAAAAAAA'',
              mimeType = ''image/png'',
              annotations = [''case_id'' \<mapsto> ''0123456789abcdef0123456789abcdef'',
                             ''prompt'' \<mapsto> ''a cat'']\<rparr>,
         [ImagesGenerate (generate_request example_env ''a cat'')])"
    "edit_image (example_env\<lparr>images_generate := \<lambda>req. Inr (Some [inline_png, empty_ref])\<rparr>)
        ''/tmp/cat.png'' ''a cat''
      = (Inr \<lparr>type = ''image'', data = ''iVBORw0KGgoAAAAAAAAAAAAAAAAAAAAA'',
              mimeType = ''image/png'',
              annotations = [''case_id'' \<mapsto> ''0123456789abcdef0123456789abcdef'',
                             ''prompt'' \<mapsto> ''a cat'', ''source_image'' \<mapsto> ''/tmp/cat.png'']\<rparr>,
         [FileRead ''/tmp/cat.png'',
          ImagesGenerate (edit_request example_env (b64encode example_png) ''a cat'')])"
    by (simp_all add: f i detect_inline_png)
  from r f first same show ?thesis by (intro conjI) (rule refl | assumption)+
qed

text \<open>
  C7. No tool handler checks its string arguments, and none raises an error of its own
  for an empty one. \<open>generate_image\<close> starts with the upstream call, made with the
  caller's prompt unchanged, empty or not. \<open>edit_image\<close> and \<open>describe_image\<close> start by
  reading the file at \<open>image_path\<close>, whatever the path is: when the read fails they fail
  with its error and call nothing else, and when it succeeds they go on to the upstream
  call (\<open>edit_image\<close> with the caller's prompt unchanged).
\<close>

theorem handlers_forward_inputs:
  "prefix [ImagesGenerate (generate_request e p)] (snd (generate_image e p))
   \<and> arg_prompt (generate_request e p) = p
   \<and> (read_file e path = Inr bytes \<longrightarrow>
        prefix [FileRead path, ImagesGenerate (edit_request e (b64encode bytes) p)]
          (snd (edit_image e path p))
        \<and> arg_prompt (edit_request e (b64encode bytes) p) = p
        \<and> snd (describe_image e path) =
            [FileRead path,
             ChatCreate (describe_request e (spec_classify (take 24 bytes)) (b64encode bytes))])
   \<and> (read_file e path' = Inl err \<longrightarrow>
        edit_image e path' p = (Inl err, [FileRead path'])
        \<and> describe_image e path' = (Inl err, [FileRead path']))"
proof (intro conjI impI)
  show "prefix [ImagesGenerate (generate_request e p)] (snd (generate_image e p))"
    by (simp add: generate_image_def Let_def
          split: sum.splits option.splits list.splits prod.splits)
  show "arg_prompt (generate_request e p) = p"
    by (simp add: generate_request_def)
next
  assume r: "read_file e path = Inr bytes"
  show "prefix [FileRead path, ImagesGenerate (edit_request e (b64encode bytes) p)]
          (snd (edit_image e path p))"
    by (simp add: edit_image_def Let_def r
          split: sum.splits option.splits list.splits prod.splits)
  show "arg_prompt (edit_request e (b64encode bytes) p) = p"
    by (simp add: edit_request_def)
  show "snd (describe_image e path) =
            [FileRead path,
             ChatCreate (describe_request e (spec_classify (take 24 bytes)) (b64encode bytes))]"
    by (simp add: describe_image_def Let_def r detect_image_type_b64encode
          split: sum.splits option.splits list.splits)
next
  assume r: "read_file e path' = Inl err"
  show "edit_image e path' p = (Inl err, [FileRead path'])"
    by (simp add: edit_image_def r)
  show "describe_image e path' = (Inl err, [FileRead path'])"
    by (simp add: describe_image_def r)
qed

theorem handlers_forward_inputs_witness:
  "read_file example_env ''/tmp/cat.png'' = Inr example_png
   \<and> read_file example_env [] = Inl (External ''FileNotFoundError'')
   \<and> prefix [ImagesGenerate (generate_request example_env [])]
        (snd (generate_image example_env []))
   \<and> arg_prompt (generate_request example_env []) = []
   \<and> prefix [FileRead ''/tmp/cat.png'',
              ImagesGenerate (edit_request example_env (b64encode example_png) [])]
        (snd (edit_image example_env ''/tmp/cat.png'' []))
   \<and> edit_image example_env [] [] = (Inl (External ''FileNotFoundError''), [FileRead []])
   \<and> describe_image example_env [] = (Inl (External ''FileNotFoundError''), [FileRead []])"
proof -
  have r: "read_file example_env ''/tmp/cat.png'' = Inr example_png"
    and r': "read_file example_env [] = Inl (External ''FileNotFoundError'')"
    by (simp_all add: example_env_def)
  from handlers_forward_inputs [of example_env "[]" "''/tmp/cat.png''" example_png "[]"
      "External ''FileNotFoundError''"]
  show ?thesis using r r' by simp
qed

text \<open>
  C7, where it says that an empty required argument is rejected before the upstream
  call: with an empty prompt, \<open>generate_image\<close> calls the upstream endpoint and returns
  an \<open>ImageContent\<close>, and so does \<open>edit_image\<close>.
\<close>

theorem handlers_forward_inputs_counterexample:
  "generate_image example_env [] =
     (Inr \<lparr>type = ''image'', data = ''iVBORw0KGgoAAAAAAAAAAAAAAAAAAAAA'',
           mimeType = ''image/png'',
           annotations = [''case_id'' \<mapsto> ''0123456789abcdef0123456789abcdef'',
                          ''prompt'' \<mapsto> []]\<rparr>,
      [ImagesGenerate \<lparr>arg_prompt = [], arg_model = ''text2image-model'',
                       arg_condition_image = None, arg_width = 1024, arg_height = 1792,
                       arg_steps = 4, arg_n = 1\<rparr>])
   \<and> edit_image example_env ''/tmp/cat.png'' [] =
     (Inr \<lparr>type = ''image'', data = ''iVBORw0KGgoAAAAAAAAAAAAAAAAAAAAA'',
           mimeType = ''image/png'',
           annotations = [''case_id'' \<mapsto> ''0123456789abcdef0123456789abcdef'',
                          ''prompt'' \<mapsto> [], ''source_image'' \<mapsto> ''/tmp/cat.png'']\<rparr>,
      [FileRead ''/tmp/cat.png'',
       ImagesGenerate \<lparr>arg_prompt = [], arg_model = ''image2image-model'',
                       arg_condition_image = Some ''iVBORw0KGgoAAAAAAAAAAAAAAAAAAAAA'',
                       arg_width = 1024, arg_height = 1024, arg_steps = 4, arg_n = 1\<rparr>])"
  by (simp add: generate_image_def generate_request_def edit_image_def edit_request_def
        fetch_image_def example_env_def inline_png_def detect_inline_png
        b64encode_example_png)

end
